theory Spec2Isabelle
  imports Complex_Main "HOL-Library.Sublist" "HOL-Library.Log_Nat"
begin

section \<open>Double-precision rounding\<close>

text \<open>
  Python floats are IEEE binary64 numbers. The values are kept as rationals;
  \<open>round_double\<close> is the rounding every float operation applies to its exact result:
  to the nearest number with 53 significant bits, ties to the even one. The exponent
  range is not bounded here (no overflow to infinity, no subnormals).
\<close>

definition round_half_even :: "rat \<Rightarrow> int" where
  "round_half_even n =
     (let f = \<lfloor>n\<rfloor>; d = n - of_int f
      in if d < 1 / 2 then f else if 1 / 2 < d then f + 1 else if even f then f else f + 1)"

text \<open>For \<open>x > 0\<close>, the integer \<open>e\<close> with \<open>2 ^ e \<le> x < 2 ^ (e + 1)\<close>.\<close>

definition binade :: "rat \<Rightarrow> int" where
  "binade x =
     (case quotient_of x of (p, q) \<Rightarrow>
        (let e = bitlen p - bitlen q in if 2 powi e \<le> x then e else e - 1))"

definition round_double :: "rat \<Rightarrow> rat" where
  "round_double x =
     (if x = 0 then 0
      else (let u = 2 powi (binade \<bar>x\<bar> - 52)
            in of_int (round_half_even (x / u)) * u))"

section \<open>Library functions taken as parameters\<close>

text \<open>
  \<^verbatim>\<open>generate_token\<close> calls \<^verbatim>\<open>hashlib.sha256(...).hexdigest()\<close> and \<^verbatim>\<open>str\<close> on a
  float, and the lockout test subtracts two floats. These belong to the Python library
  and runtime, not to the repository, so they are parameters of the model. Clock
  readings (\<^verbatim>\<open>time.time()\<close>) are rationals supplied by the environment.
\<close>

record pylib =
  sha256_hexdigest :: "string \<Rightarrow> string"
  str_float :: "rat \<Rightarrow> string"
  float_sub :: "rat \<Rightarrow> rat \<Rightarrow> rat"

text \<open>
  A concrete instance, used where a closed statement needs one. The subtraction is the
  binary64 one: the exact difference, rounded. The digest is written symbolically and
  the clock reading as its integer part in unary; no theorem below depends on the
  strings these two produce.
\<close>

definition symbolic_lib :: pylib where
  "symbolic_lib =
     \<lparr>sha256_hexdigest = (\<lambda>d. ''sha256('' @ d @ '')''),
      str_float = (\<lambda>t. replicate (nat \<lfloor>t\<rfloor>) CHR ''|''),
      float_sub = (\<lambda>a b. round_double (a - b))\<rparr>"

section \<open>SecurityManager\<close>

text \<open>One entry of \<^verbatim>\<open>failed_attempts\<close>: the dict \<^verbatim>\<open>{'count': .., 'timestamp': ..}\<close>.\<close>

record attempt =
  count :: int
  timestamp :: rat

record SecurityManager =
  authorized_clients :: "string set"
  session_tokens :: "string \<rightharpoonup> string"
  failed_attempts :: "string \<rightharpoonup> attempt"

text \<open>\<^verbatim>\<open>max_attempts\<close> and \<^verbatim>\<open>block_duration\<close> are set in \<^verbatim>\<open>__init__\<close> and never assigned again.\<close>

definition max_attempts :: int where
  "max_attempts = 3"

definition block_duration :: rat where
  "block_duration = 300"

definition SecurityManager_init :: SecurityManager where
  "SecurityManager_init =
     \<lparr>authorized_clients = {}, session_tokens = Map.empty, failed_attempts = Map.empty\<rparr>"

text \<open>
  \<^verbatim>\<open>generate_token\<close>: the digest of \<^verbatim>\<open>f"{client_id}:{timestamp}"\<close>, where
  \<^verbatim>\<open>timestamp = str(time.time())\<close>. The argument \<open>now\<close> is that clock reading.
\<close>

definition generate_token :: "pylib \<Rightarrow> string \<Rightarrow> rat \<Rightarrow> string" where
  "generate_token L client_id now =
     sha256_hexdigest L (client_id @ '':'' @ str_float L now)"

text \<open>
  \<^verbatim>\<open>authenticate_client\<close>. The clock is read at most twice in one call: \<open>t_check\<close> is the
  reading of the lockout test (line 39), \<open>t_later\<close> the reading taken afterwards, by
  \<^verbatim>\<open>generate_token\<close> (line 32) or for a new record (line 53). The difference of line 39
  is the float subtraction of the library. The result is the updated manager and the
  returned boolean.
\<close>

definition authenticate_client ::
  "pylib \<Rightarrow> SecurityManager \<Rightarrow> string \<Rightarrow> string \<Rightarrow> rat \<Rightarrow> rat \<Rightarrow> SecurityManager \<times> bool" where
  "authenticate_client L sm client_id password t_check t_later =
     (if (case failed_attempts sm client_id of
            None \<Rightarrow> False
          | Some r \<Rightarrow>
              float_sub L t_check (timestamp r) < block_duration \<and> count r \<ge> max_attempts)
      then (sm, False)
      else if password = ''secure_password'' then
        (sm\<lparr>authorized_clients := insert client_id (authorized_clients sm),
            session_tokens := (session_tokens sm)(client_id \<mapsto> generate_token L client_id t_later)\<rparr>,
         True)
      else
        (case failed_attempts sm client_id of
           None \<Rightarrow>
             (sm\<lparr>failed_attempts :=
                   (failed_attempts sm)(client_id \<mapsto> \<lparr>count = 1, timestamp = t_later\<rparr>)\<rparr>,
              False)
         | Some r \<Rightarrow>
             (sm\<lparr>failed_attempts :=
                   (failed_attempts sm)(client_id \<mapsto> r\<lparr>count := count r + 1\<rparr>)\<rparr>,
              False)))"

section \<open>Values the code handles\<close>

text \<open>Exceptions the modelled code can raise.\<close>

datatype py_error =
  ValueError | TypeError | KeyError | IndexError | ZeroDivisionError | OtherException

text \<open>
  What \<^verbatim>\<open>json.loads\<close> returns: a Python value built from \<^verbatim>\<open>None\<close>, booleans, numbers,
  strings, lists and dicts. A dict is the list of its items, keys distinct.
\<close>

datatype json =
    JNull
  | JBool bool
  | JNum rat
  | JStr string
  | JArr "json list"
  | JObj "(string \<times> json) list"

text \<open>
  The bytes one \<^verbatim>\<open>recv(4096)\<close> returned, as far as the code looks at them: empty, not
  decodable as UTF-8 JSON (\<^verbatim>\<open>data.decode()\<close> or \<^verbatim>\<open>json.loads\<close> raises), or the parsed value.
\<close>

datatype payload = NoData | BadJson | Json json

text \<open>\<^verbatim>\<open>key in v\<close> for a string \<open>key\<close>: dict keys, list elements, substring, else \<^verbatim>\<open>TypeError\<close>.\<close>

fun py_contains :: "string \<Rightarrow> json \<Rightarrow> py_error + bool" where
  "py_contains k (JObj kvs) = Inr (k \<in> set (map fst kvs))"
| "py_contains k (JArr xs) = Inr (JStr k \<in> set xs)"
| "py_contains k (JStr s) = Inr (sublist k s)"
| "py_contains k (JNum x) = Inl TypeError"
| "py_contains k (JBool b) = Inl TypeError"
| "py_contains k JNull = Inl TypeError"

text \<open>\<^verbatim>\<open>v[key]\<close> for a string \<open>key\<close>: only a dict can be indexed by a string.\<close>

fun py_getitem :: "json \<Rightarrow> string \<Rightarrow> py_error + json" where
  "py_getitem (JObj kvs) k = (case map_of kvs k of None \<Rightarrow> Inl KeyError | Some v \<Rightarrow> Inr v)"
| "py_getitem (JArr xs) k = Inl TypeError"
| "py_getitem (JStr s) k = Inl TypeError"
| "py_getitem (JNum x) k = Inl TypeError"
| "py_getitem (JBool b) k = Inl TypeError"
| "py_getitem JNull k = Inl TypeError"

section \<open>SecureTrafficSystem: state, telemetry, response\<close>

text \<open>
  The fields the handlers read or write. \<^verbatim>\<open>host\<close>, \<^verbatim>\<open>port\<close>, \<^verbatim>\<open>clients\<close> (never used)
  and \<^verbatim>\<open>model\<close> (the detector, see below) are left out.
\<close>

record SecureTrafficSystem =
  security_manager :: SecurityManager
  running :: bool
  signals :: "string \<rightharpoonup> json"
  congestion_levels :: "string \<rightharpoonup> json"

definition SecureTrafficSystem_init :: SecureTrafficSystem where
  "SecureTrafficSystem_init =
     \<lparr>security_manager = SecurityManager_init, running = False,
      signals = Map.empty, congestion_levels = Map.empty\<rparr>"

text \<open>Lines 167-168 and 171-172: each raises before it assigns, or assigns.\<close>

definition update_signal ::
  "SecureTrafficSystem \<Rightarrow> json \<Rightarrow> string \<Rightarrow> py_error + SecureTrafficSystem" where
  "update_signal s traffic_data client_id =
     (case py_contains ''signal_state'' traffic_data of
        Inl e \<Rightarrow> Inl e
      | Inr False \<Rightarrow> Inr s
      | Inr True \<Rightarrow>
          (case py_getitem traffic_data ''signal_state'' of
             Inl e \<Rightarrow> Inl e
           | Inr v \<Rightarrow> Inr (s\<lparr>signals := (signals s)(client_id \<mapsto> v)\<rparr>)))"

definition update_congestion ::
  "SecureTrafficSystem \<Rightarrow> json \<Rightarrow> string \<Rightarrow> py_error + SecureTrafficSystem" where
  "update_congestion s traffic_data client_id =
     (case py_contains ''congestion'' traffic_data of
        Inl e \<Rightarrow> Inl e
      | Inr False \<Rightarrow> Inr s
      | Inr True \<Rightarrow>
          (case py_getitem traffic_data ''congestion'' of
             Inl e \<Rightarrow> Inl e
           | Inr v \<Rightarrow> Inr (s\<lparr>congestion_levels := (congestion_levels s)(client_id \<mapsto> v)\<rparr>)))"

text \<open>
  \<^verbatim>\<open>process_traffic_data\<close>. Its \<^verbatim>\<open>try\<close> covers the whole body and its handler only logs,
  so the function always returns normally; an exception keeps the assignments made
  before it. The \<^verbatim>\<open>token\<close> entry of the message is never read.
\<close>

definition process_traffic_data ::
  "SecureTrafficSystem \<Rightarrow> payload \<Rightarrow> string \<Rightarrow> SecureTrafficSystem" where
  "process_traffic_data s data client_id =
     (case data of
        NoData \<Rightarrow> s
      | BadJson \<Rightarrow> s
      | Json traffic_data \<Rightarrow>
          (case update_signal s traffic_data client_id of
             Inl e \<Rightarrow> s
           | Inr s1 \<Rightarrow>
               (case update_congestion s1 traffic_data client_id of
                  Inl e \<Rightarrow> s1
                | Inr s2 \<Rightarrow> s2)))"

text \<open>
  \<^verbatim>\<open>generate_response\<close>: the dict handed to \<^verbatim>\<open>json.dumps\<close>. \<open>now_iso\<close> is
  \<^verbatim>\<open>datetime.now().isoformat()\<close>, supplied by the environment.
\<close>

record response =
  resp_timestamp :: string
  resp_signal_state :: json
  resp_congestion_level :: json
  resp_token :: string

definition generate_response :: "SecureTrafficSystem \<Rightarrow> string \<Rightarrow> string \<Rightarrow> response" where
  "generate_response s client_id now_iso =
     \<lparr>resp_timestamp = now_iso,
      resp_signal_state = (case signals s client_id of None \<Rightarrow> JStr ''UNKNOWN'' | Some v \<Rightarrow> v),
      resp_congestion_level = (case congestion_levels s client_id of None \<Rightarrow> JNum 0 | Some v \<Rightarrow> v),
      resp_token =
        (case session_tokens (security_manager s) client_id of None \<Rightarrow> [] | Some t \<Rightarrow> t)\<rparr>"

section \<open>handle_client\<close>

text \<open>What a blocking call gave: it raised, or it returned a value.\<close>

datatype 'a outcome = Raised | Returned 'a

text \<open>What the server wrote to the socket.\<close>

datatype sent = SendToken string | SendAuthFailed | SendResponse response

text \<open>
  One pass of the \<^verbatim>\<open>while\<close> body as the environment drives it: the outcome of
  \<^verbatim>\<open>recv(4096)\<close>, the clock string for the response, and whether \<^verbatim>\<open>send\<close> succeeds.
\<close>

record event =
  recv :: "payload outcome"
  stamp :: string
  send_ok :: bool

datatype flow = Continue | Break

text \<open>
  The body of the loop, lines 135-150. \<^verbatim>\<open>Break\<close> is the \<^verbatim>\<open>break\<close> on empty data or the
  handler of the inner \<^verbatim>\<open>try\<close>; \<^verbatim>\<open>Continue\<close> is reaching the end of the body.
\<close>

definition loop_body ::
  "SecureTrafficSystem \<Rightarrow> string \<Rightarrow> event \<Rightarrow> SecureTrafficSystem \<times> sent list \<times> flow" where
  "loop_body s client_id ev =
     (case recv ev of
        Raised \<Rightarrow> (s, [], Break)
      | Returned NoData \<Rightarrow> (s, [], Break)
      | Returned data \<Rightarrow>
          (let s' = process_traffic_data s data client_id;
               response = generate_response s' client_id (stamp ev)
           in if send_ok ev then (s', [SendResponse response], Continue)
              else (s', [], Break)))"

text \<open>
  The state of a connection after the events supplied so far: still inside the loop,
  blocked in \<^verbatim>\<open>recv\<close>, or closed (\<^verbatim>\<open>finally: client_socket.close()\<close>).
\<close>

datatype conn = InLoop | Closed

fun telemetry_loop ::
  "SecureTrafficSystem \<Rightarrow> string \<Rightarrow> event list \<Rightarrow> SecureTrafficSystem \<times> sent list \<times> conn" where
  "telemetry_loop s client_id [] = (if running s then (s, [], InLoop) else (s, [], Closed))"
| "telemetry_loop s client_id (ev # evs) =
     (if running s then
        (case loop_body s client_id ev of
           (s', out, Break) \<Rightarrow> (s', out, Closed)
         | (s', out, Continue) \<Rightarrow>
             (case telemetry_loop s' client_id evs of
                (s'', out', c) \<Rightarrow> (s'', out @ out', c)))
      else (s, [], Closed))"

text \<open>
  \<^verbatim>\<open>str.split(sep)\<close> for a one-character separator: one more part than separators.
  The split of the rest is never empty, so the first branch of the \<^theory_text>\<open>case\<close> is
  never taken.
\<close>

fun split_on :: "char \<Rightarrow> string \<Rightarrow> string list" where
  "split_on c [] = [[]]"
| "split_on c (x # xs) =
     (case split_on c xs of
        [] \<Rightarrow> []
      | p # ps \<Rightarrow> if x = c then [] # p # ps else (x # p) # ps)"

text \<open>
  What one connection receives: the outcome of \<^verbatim>\<open>recv(1024).decode()\<close>, the two clock
  readings of \<^verbatim>\<open>authenticate_client\<close>, whether the \<^verbatim>\<open>send\<close> of the authentication answer
  succeeds, and the events of the loop.
\<close>

record conn_input =
  auth_data :: "string outcome"
  clock_check :: rat
  clock_later :: rat
  auth_send_ok :: bool
  telemetry :: "event list"

text \<open>
  \<^verbatim>\<open>handle_client\<close>. Every exception outside the loop lands in the outer handler, which
  logs, and \<^verbatim>\<open>finally\<close> closes the socket. The two-target assignment from \<^verbatim>\<open>split(':')\<close>
  raises \<^verbatim>\<open>ValueError\<close> unless there are exactly two parts.
\<close>

definition handle_client ::
  "pylib \<Rightarrow> SecureTrafficSystem \<Rightarrow> conn_input \<Rightarrow> SecureTrafficSystem \<times> sent list \<times> conn" where
  "handle_client L s inp =
     (case auth_data inp of
        Raised \<Rightarrow> (s, [], Closed)
      | Returned text \<Rightarrow>
          (case split_on CHR '':'' text of
             [client_id, password] \<Rightarrow>
               (case authenticate_client L (security_manager s) client_id password
                       (clock_check inp) (clock_later inp) of
                  (sm, True) \<Rightarrow>
                    (let s1 = s\<lparr>security_manager := sm\<rparr> in
                     case session_tokens sm client_id of
                       None \<Rightarrow> (s1, [], Closed)
                     | Some token \<Rightarrow>
                         if auth_send_ok inp then
                           (case telemetry_loop s1 client_id (telemetry inp) of
                              (s2, out, c) \<Rightarrow> (s2, SendToken token # out, c))
                         else (s1, [], Closed))
                | (sm, False) \<Rightarrow>
                    (s\<lparr>security_manager := sm\<rparr>,
                     if auth_send_ok inp then [SendAuthFailed] else [], Closed))
           | _ \<Rightarrow> (s, [], Closed)))"

section \<open>detect_vehicles\<close>

text \<open>
  One box of a YOLO result, as the code reads it: \<^verbatim>\<open>int(box.cls[0])\<close>,
  \<^verbatim>\<open>float(box.conf[0])\<close> and the four coordinates of \<^verbatim>\<open>box.xyxy[0]\<close>. The detector
  itself is outside the repository: what \<^verbatim>\<open>self.model(frame)\<close> gives is an input.
\<close>

record yolo_box =
  cls :: int
  conf :: rat
  xyxy :: "rat \<times> rat \<times> rat \<times> rat"

text \<open>\<^verbatim>\<open>int(x)\<close> on a float truncates towards zero.\<close>

definition py_int :: "rat \<Rightarrow> int" where
  "py_int x = (if 0 \<le> x then \<lfloor>x\<rfloor> else \<lceil>x\<rceil>)"

definition vehicle_classes :: "(int \<times> string) list" where
  "vehicle_classes =
     [(2, ''car''), (3, ''motorcycle''), (5, ''bus''), (7, ''truck''), (1, ''bicycle'')]"

definition emergency_classes :: "(string \<times> int) list" where
  "emergency_classes = [(''ambulance'', 2), (''fire_truck'', 7), (''police_car'', 2)]"

text \<open>
  The dict \<^verbatim>\<open>detection\<close> of lines 206-210. Its keys, in insertion order, are
  \<^verbatim>\<open>'class'\<close>, \<^verbatim>\<open>'confidence'\<close>, \<^verbatim>\<open>'box'\<close>.
\<close>

record detection =
  det_class :: string
  det_confidence :: rat
  det_box :: "int \<times> int \<times> int \<times> int"

definition detection_keys :: "detection \<Rightarrow> string list" where
  "detection_keys d = [''class'', ''confidence'', ''box'']"

text \<open>
  The body of the inner \<^verbatim>\<open>for box in boxes\<close>, lines 200-215, on the two lists built so
  far. A class is an emergency class when it is among the values of
  \<^verbatim>\<open>emergency_classes\<close>, that is 2 or 7.
\<close>

definition classify_box ::
  "detection list \<times> detection list \<Rightarrow> yolo_box \<Rightarrow> detection list \<times> detection list" where
  "classify_box acc b =
     (case acc of (regular_vehicles, emergency_vehicles) \<Rightarrow>
        (case map_of vehicle_classes (cls b) of
           None \<Rightarrow> (regular_vehicles, emergency_vehicles)
         | Some name \<Rightarrow>
             (case xyxy b of (x1, y1, x2, y2) \<Rightarrow>
                (let d = \<lparr>det_class = name, det_confidence = conf b,
                          det_box = (py_int x1, py_int y1, py_int x2, py_int y2)\<rparr>
                 in if cls b \<in> set (map snd emergency_classes)
                    then (regular_vehicles, emergency_vehicles @ [d])
                    else (regular_vehicles @ [d], emergency_vehicles)))))"

text \<open>The two nested loops over \<^verbatim>\<open>results\<close> and \<^verbatim>\<open>result.boxes\<close>.\<close>

definition classify :: "yolo_box list list \<Rightarrow> detection list \<times> detection list" where
  "classify results = foldl classify_box ([], []) (concat results)"

text \<open>
  One element of the generator of line 219,
  \<^verbatim>\<open>(x2-x1)*(y2-y1) for _, _, (x1, y1, x2, y2) in regular_vehicles\<close>. The elements of
  \<^verbatim>\<open>regular_vehicles\<close> are dicts, and unpacking a dict iterates over its keys: the third
  target \<^verbatim>\<open>(x1, y1, x2, y2)\<close> receives the key \<^verbatim>\<open>'box'\<close>, a string of three characters,
  and unpacking it into four names raises \<^verbatim>\<open>ValueError\<close>. Had the key four characters,
  the subtraction of two strings would raise \<^verbatim>\<open>TypeError\<close>.
\<close>

definition box_area_term :: "detection \<Rightarrow> py_error + int" where
  "box_area_term d =
     (case detection_keys d of
        [k1, k2, k3] \<Rightarrow>
          (case k3 of
             [x1, y1, x2, y2] \<Rightarrow> Inl TypeError
           | _ \<Rightarrow> Inl ValueError)
      | _ \<Rightarrow> Inl ValueError)"

text \<open>\<^verbatim>\<open>sum(...)\<close> over the generator: the first element that raises ends it.\<close>

fun vehicle_area_sum :: "detection list \<Rightarrow> py_error + int" where
  "vehicle_area_sum [] = Inr 0"
| "vehicle_area_sum (d # ds) =
     (case box_area_term d of
        Inl e \<Rightarrow> Inl e
      | Inr a \<Rightarrow>
          (case vehicle_area_sum ds of
             Inl e \<Rightarrow> Inl e
           | Inr t \<Rightarrow> Inr (a + t)))"

text \<open>\<^verbatim>\<open>frame.shape[i]\<close>: the shape is a tuple of naturals.\<close>

definition shape_at :: "nat list \<Rightarrow> nat \<Rightarrow> py_error + nat" where
  "shape_at shape i = (if i < length shape then Inr (shape ! i) else Inl IndexError)"

text \<open>\<^verbatim>\<open>a / b\<close> on integers: true division, \<^verbatim>\<open>ZeroDivisionError\<close> when \<open>b = 0\<close>.\<close>

definition py_truediv :: "int \<Rightarrow> int \<Rightarrow> py_error + rat" where
  "py_truediv a b = (if b = 0 then Inl ZeroDivisionError else Inr (of_int a / of_int b))"

text \<open>
  The body of the \<^verbatim>\<open>try\<close> of \<^verbatim>\<open>detect_vehicles\<close>, lines 192-222. \<open>results\<close> is the
  outcome of \<^verbatim>\<open>self.model(frame)\<close>, \<open>shape\<close> is \<^verbatim>\<open>frame.shape\<close>. The congestion is
  an exact rational where Python has a float.
\<close>

definition detect_vehicles_try ::
  "yolo_box list list outcome \<Rightarrow> nat list \<Rightarrow>
     py_error + (detection list \<times> detection list \<times> rat)" where
  "detect_vehicles_try results shape =
     (case results of
        Raised \<Rightarrow> Inl OtherException
      | Returned rs \<Rightarrow>
          (case classify rs of (regular_vehicles, emergency_vehicles) \<Rightarrow>
             (case shape_at shape 0 of
                Inl e \<Rightarrow> Inl e
              | Inr h \<Rightarrow>
                  (case shape_at shape 1 of
                     Inl e \<Rightarrow> Inl e
                   | Inr w \<Rightarrow>
                       (let frame_area = int h * int w in
                        case vehicle_area_sum regular_vehicles of
                          Inl e \<Rightarrow> Inl e
                        | Inr vehicle_area \<Rightarrow>
                            (case py_truediv vehicle_area frame_area of
                               Inl e \<Rightarrow> Inl e
                             | Inr q \<Rightarrow>
                                 Inr (regular_vehicles, emergency_vehicles, min 1 q)))))))"

text \<open>\<^verbatim>\<open>detect_vehicles\<close>: the handler turns every exception into \<^verbatim>\<open>[], [], 0.0\<close>.\<close>

definition detect_vehicles ::
  "yolo_box list list outcome \<Rightarrow> nat list \<Rightarrow> detection list \<times> detection list \<times> rat" where
  "detect_vehicles results shape =
     (case detect_vehicles_try results shape of
        Inl e \<Rightarrow> ([], [], 0)
      | Inr r \<Rightarrow> r)"

section \<open>Reachable states of the server\<close>

text \<open>
  The server state changes only through \<^verbatim>\<open>start_server\<close> and \<^verbatim>\<open>stop_server\<close> (the flag
  \<^verbatim>\<open>running\<close>), through \<^verbatim>\<open>authenticate_client\<close> on the authentication frame of some
  connection, and through \<^verbatim>\<open>process_traffic_data\<close> on a frame of a connection whose
  client authenticated before, hence is in \<^verbatim>\<open>authorized_clients\<close>. The handler threads
  interleave; \<open>reachable L ok s\<close> holds for every state some interleaving of these steps
  reaches from the initial one, with telemetry payloads restricted to those satisfying
  \<open>ok\<close>.
\<close>

inductive reachable :: "pylib \<Rightarrow> (payload \<Rightarrow> bool) \<Rightarrow> SecureTrafficSystem \<Rightarrow> bool"
  for L :: pylib and ok :: "payload \<Rightarrow> bool" where
  init: "reachable L ok SecureTrafficSystem_init"
| start: "reachable L ok s \<Longrightarrow> reachable L ok (s\<lparr>running := True\<rparr>)"
| stop: "reachable L ok s \<Longrightarrow> reachable L ok (s\<lparr>running := False\<rparr>)"
| auth: "reachable L ok s \<Longrightarrow>
         reachable L ok
           (s\<lparr>security_manager :=
                fst (authenticate_client L (security_manager s) client_id password t1 t2)\<rparr>)"
| data: "reachable L ok s \<Longrightarrow> client_id \<in> authorized_clients (security_manager s) \<Longrightarrow>
         ok d \<Longrightarrow> reachable L ok (process_traffic_data s d client_id)"

text \<open>A value is a number of the interval from 0 to 1.\<close>

fun in_unit_interval :: "json \<Rightarrow> bool" where
  "in_unit_interval (JNum x) = (0 \<le> x \<and> x \<le> 1)"
| "in_unit_interval v = False"

text \<open>
  The congestion level of a client as \<^verbatim>\<open>generate_response\<close> reads it, with the default
  \<^verbatim>\<open>0.0\<close> for a client without entry.
\<close>

definition congestion_level_of :: "SecureTrafficSystem \<Rightarrow> string \<Rightarrow> json" where
  "congestion_level_of s client_id =
     (case congestion_levels s client_id of None \<Rightarrow> JNum 0 | Some v \<Rightarrow> v)"

text \<open>The \<^verbatim>\<open>congestion\<close> entry of a payload, when it is a dict that has one.\<close>

fun congestion_field :: "payload \<Rightarrow> json option" where
  "congestion_field (Json (JObj kvs)) = map_of kvs ''congestion''"
| "congestion_field d = None"

definition congestion_field_in_unit :: "payload \<Rightarrow> bool" where
  "congestion_field_in_unit d =
     (case congestion_field d of None \<Rightarrow> True | Some v \<Rightarrow> in_unit_interval v)"

definition any_payload :: "payload \<Rightarrow> bool" where
  "any_payload d = True"

section \<open>Malformed telemetry\<close>

text \<open>
  A telemetry frame that is not a JSON object: bytes that do not parse, or a parsed
  value other than a dict. Empty data is the peer closing, not a message.
\<close>

fun is_dict :: "json \<Rightarrow> bool" where
  "is_dict (JObj kvs) = True"
| "is_dict v = False"

fun malformed :: "payload \<Rightarrow> bool" where
  "malformed BadJson = True"
| "malformed (Json v) = (\<not> is_dict v)"
| "malformed NoData = False"

section \<open>Authentication: lockout and the attempt record\<close>


lemma round_double_400: "round_double 400 = 400"
  by code_simp





lemma attempt_record_persists:
  assumes "failed_attempts sm c = Some r"
  shows "\<exists>r'. failed_attempts (fst (authenticate_client L sm client_id password t1 t2)) c = Some r'
           \<and> count r \<le> count r' \<and> timestamp r' = timestamp r"
  using assms by (auto simp: authenticate_client_def split: option.splits)

lemma success_keeps_attempts:
  assumes "snd (authenticate_client L sm client_id password t1 t2)"
  shows "failed_attempts (fst (authenticate_client L sm client_id password t1 t2))
           = failed_attempts sm"
  using assms by (auto simp: authenticate_client_def split: option.splits if_splits)

lemma after_window:
  assumes "failed_attempts sm client_id = Some r"
    and "300 \<le> float_sub L t1 (timestamp r)"
  shows "authenticate_client L sm client_id password t1 t2 =
        (if password = ''secure_password''
         then (sm\<lparr>authorized_clients := insert client_id (authorized_clients sm),
                  session_tokens := (session_tokens sm)(client_id \<mapsto> generate_token L client_id t2)\<rparr>,
               True)
         else (sm\<lparr>failed_attempts := (failed_attempts sm)(client_id \<mapsto> r\<lparr>count := count r + 1\<rparr>)\<rparr>,
               False))"
  using assms by (auto simp: authenticate_client_def block_duration_def)

text \<open>
  C4, as the code has it. No call of \<^verbatim>\<open>authenticate_client\<close>, for whatever client,
  password and clock readings, removes or resets an entry of \<^verbatim>\<open>failed_attempts\<close>: a
  record that exists before the call exists after it, with a count at least as large
  and the same timestamp. A successful authentication leaves \<^verbatim>\<open>failed_attempts\<close> as it
  was. Once the elapsed time that line 39 computes is 300 or more, the lockout test no
  longer applies: the correct password succeeds, and a wrong one adds one to the count
  and keeps the old timestamp.
\<close>

theorem attempt_record_kept:
  "(failed_attempts sm c = Some r0 \<longrightarrow>
      (\<exists>r'. failed_attempts (fst (authenticate_client L sm client_id password t1 t2)) c = Some r'
         \<and> count r0 \<le> count r' \<and> timestamp r' = timestamp r0))
   \<and> (snd (authenticate_client L sm client_id password t1 t2) \<longrightarrow>
      failed_attempts (fst (authenticate_client L sm client_id password t1 t2)) = failed_attempts sm)
   \<and> (failed_attempts sm client_id = Some r \<and> 300 \<le> float_sub L t1 (timestamp r) \<longrightarrow>
      authenticate_client L sm client_id password t1 t2 =
        (if password = ''secure_password''
         then (sm\<lparr>authorized_clients := insert client_id (authorized_clients sm),
                  session_tokens := (session_tokens sm)(client_id \<mapsto> generate_token L client_id t2)\<rparr>,
               True)
         else (sm\<lparr>failed_attempts := (failed_attempts sm)(client_id \<mapsto> r\<lparr>count := count r + 1\<rparr>)\<rparr>,
               False)))"
  using attempt_record_persists [of sm c r0 L client_id password t1 t2]
    success_keeps_attempts [of L sm client_id password t1 t2]
    after_window [of sm client_id r L t1 password t2]
  by blast

theorem attempt_record_kept_witness:
  "failed_attempts
     (SecurityManager_init\<lparr>failed_attempts := [''sensor-2'' \<mapsto> \<lparr>count = 3, timestamp = 0\<rparr>]\<rparr>)
     ''sensor-2'' = Some \<lparr>count = 3, timestamp = 0\<rparr>
   \<and> (300::rat) \<le> float_sub symbolic_lib 400 (timestamp \<lparr>count = 3, timestamp = 0\<rparr>)
   \<and> snd (authenticate_client symbolic_lib
     (SecurityManager_init\<lparr>failed_attempts := [''sensor-2'' \<mapsto> \<lparr>count = 3, timestamp = 0\<rparr>]\<rparr>)
     ''sensor-2'' ''secure_password'' 400 400)
   \<and> failed_attempts (fst (authenticate_client symbolic_lib
     (SecurityManager_init\<lparr>failed_attempts := [''sensor-2'' \<mapsto> \<lparr>count = 3, timestamp = 0\<rparr>]\<rparr>)
     ''sensor-2'' ''secure_password'' 400 400)) ''sensor-2'' = Some \<lparr>count = 3, timestamp = 0\<rparr>"
proof -
  have w: "(300::rat) \<le> float_sub symbolic_lib 400 (timestamp \<lparr>count = 3, timestamp = 0\<rparr>)"
    by (simp add: symbolic_lib_def round_double_400)
  from w attempt_record_kept
    [of "SecurityManager_init\<lparr>failed_attempts := [''sensor-2'' \<mapsto> \<lparr>count = 3, timestamp = 0\<rparr>]\<rparr>"
        "''sensor-2''" "\<lparr>count = 3, timestamp = 0\<rparr>" symbolic_lib
        "''sensor-2''" "''secure_password''" 400 400 "\<lparr>count = 3, timestamp = 0\<rparr>"]
  show ?thesis by simp
qed

text \<open>
  The record is not reset. With three failures recorded at time 0, an attempt at time
  400 is past the window: the correct password succeeds and the record still reads
  count 3; a wrong password makes it count 4 with the timestamp still 0.
\<close>

theorem attempt_record_not_reset:
  "authenticate_client symbolic_lib
     (SecurityManager_init\<lparr>failed_attempts := [''sensor-2'' \<mapsto> \<lparr>count = 3, timestamp = 0\<rparr>]\<rparr>)
     ''sensor-2'' ''secure_password'' 400 400
   = (\<lparr>authorized_clients = {''sensor-2''},
       session_tokens = [''sensor-2'' \<mapsto> generate_token symbolic_lib ''sensor-2'' 400],
       failed_attempts = [''sensor-2'' \<mapsto> \<lparr>count = 3, timestamp = 0\<rparr>]\<rparr>, True)
   \<and> authenticate_client symbolic_lib
     (SecurityManager_init\<lparr>failed_attempts := [''sensor-2'' \<mapsto> \<lparr>count = 3, timestamp = 0\<rparr>]\<rparr>)
     ''sensor-2'' ''wrong'' 400 400
   = (SecurityManager_init\<lparr>failed_attempts := [''sensor-2'' \<mapsto> \<lparr>count = 4, timestamp = 0\<rparr>]\<rparr>, False)"
  by (simp add: authenticate_client_def SecurityManager_init_def block_duration_def max_attempts_def
      symbolic_lib_def round_double_400)

section \<open>Session tokens\<close>

text \<open>
  C9, on the code. The token is a function of the client id and of the clock reading
  only. Two successful authentications of \<^verbatim>\<open>sensor-1\<close> whose \<^verbatim>\<open>generate_token\<close> reads the
  same clock value \<open>t\<close> both succeed and both store the same token: the second
  overwrites the first with an equal string.
\<close>

theorem same_clock_same_token:
  "authenticate_client L SecurityManager_init ''sensor-1'' ''secure_password'' t1 t
     = (\<lparr>authorized_clients = {''sensor-1''},
         session_tokens = [''sensor-1'' \<mapsto> generate_token L ''sensor-1'' t],
         failed_attempts = Map.empty\<rparr>, True)
   \<and> authenticate_client L
       (fst (authenticate_client L SecurityManager_init ''sensor-1'' ''secure_password'' t1 t))
       ''sensor-1'' ''secure_password'' t1' t
     = (\<lparr>authorized_clients = {''sensor-1''},
         session_tokens = [''sensor-1'' \<mapsto> generate_token L ''sensor-1'' t],
         failed_attempts = Map.empty\<rparr>, True)"
  by (simp add: authenticate_client_def SecurityManager_init_def)

section \<open>The authentication frame\<close>

lemma length_split_on: "length (split_on c s) = Suc (count_list s c)"
  by (induction s) (auto split: list.splits)

lemma two_parts_only:
  assumes "length xs \<noteq> 2"
  shows "(case xs of [a, b] \<Rightarrow> f a b | _ \<Rightarrow> g) = g"
  using assms by (auto split: list.splits)

text \<open>
  C10. When the text of the authentication frame does not contain exactly one \<^verbatim>\<open>':'\<close>,
  \<^verbatim>\<open>handle_client\<close> sends nothing (neither a token nor \<^verbatim>\<open>Authentication failed\<close>), closes
  the connection, and leaves the server state, hence \<^verbatim>\<open>failed_attempts\<close>, as it was.
\<close>

theorem bad_auth_frame_closes_silently:
  assumes "auth_data inp = Returned text"
    and "count_list text CHR '':'' \<noteq> 1"
  shows "handle_client L s inp = (s, [], Closed)"
proof -
  have "length (split_on CHR '':'' text) \<noteq> 2"
    using assms(2) by (simp add: length_split_on)
  then show ?thesis
    using assms(1) by (simp add: handle_client_def two_parts_only)
qed

theorem bad_auth_frame_closes_silently_witness:
  "handle_client symbolic_lib (SecureTrafficSystem_init\<lparr>running := True\<rparr>)
     \<lparr>auth_data = Returned ''sensor-1:secure_password:extra'', clock_check = 0, clock_later = 0,
      auth_send_ok = True, telemetry = []\<rparr>
   = (SecureTrafficSystem_init\<lparr>running := True\<rparr>, [], Closed)"
  using bad_auth_frame_closes_silently
    [of "\<lparr>auth_data = Returned ''sensor-1:secure_password:extra'', clock_check = 0,
           clock_later = 0, auth_send_ok = True, telemetry = []\<rparr>"
        "''sensor-1:secure_password:extra''" symbolic_lib "SecureTrafficSystem_init\<lparr>running := True\<rparr>"]
  by simp

section \<open>Telemetry\<close>

lemma update_signal_dict:
  "update_signal s (JObj kvs) c =
     Inr (case map_of kvs ''signal_state'' of
            None \<Rightarrow> s
          | Some v \<Rightarrow> s\<lparr>signals := (signals s)(c \<mapsto> v)\<rparr>)"
proof (cases "map_of kvs ''signal_state''")
  case None
  then have "''signal_state'' \<notin> fst ` set kvs" by (simp add: map_of_eq_None_iff)
  with None show ?thesis by (simp add: update_signal_def)
next
  case (Some v)
  then have "''signal_state'' \<in> fst ` set kvs" by (metis map_of_eq_None_iff option.distinct(1))
  with Some show ?thesis by (simp add: update_signal_def)
qed

lemma update_congestion_dict:
  "update_congestion s (JObj kvs) c =
     Inr (case map_of kvs ''congestion'' of
            None \<Rightarrow> s
          | Some v \<Rightarrow> s\<lparr>congestion_levels := (congestion_levels s)(c \<mapsto> v)\<rparr>)"
proof (cases "map_of kvs ''congestion''")
  case None
  then have "''congestion'' \<notin> fst ` set kvs" by (simp add: map_of_eq_None_iff)
  with None show ?thesis by (simp add: update_congestion_def)
next
  case (Some v)
  then have "''congestion'' \<in> fst ` set kvs" by (metis map_of_eq_None_iff option.distinct(1))
  with Some show ?thesis by (simp add: update_congestion_def)
qed

lemma update_signal_not_dict: "\<not> is_dict v \<Longrightarrow> update_signal s v c \<in> {Inr s} \<union> range Inl"
  by (cases v) (auto simp: update_signal_def split: bool.splits)

lemma update_congestion_not_dict:
  "\<not> is_dict v \<Longrightarrow> update_congestion s v c \<in> {Inr s} \<union> range Inl"
  by (cases v) (auto simp: update_congestion_def split: bool.splits)

lemma process_not_dict: "\<not> is_dict v \<Longrightarrow> process_traffic_data s (Json v) c = s"
  using update_signal_not_dict [of v s c] update_congestion_not_dict [of v s c]
  by (auto simp: process_traffic_data_def split: sum.splits)

lemma process_malformed: "malformed d \<Longrightarrow> process_traffic_data s d c = s"
  by (cases d) (simp_all add: process_not_dict, simp add: process_traffic_data_def)

lemma process_dict:
  "process_traffic_data s (Json (JObj kvs)) c =
     s\<lparr>signals :=
         (case map_of kvs ''signal_state'' of
            None \<Rightarrow> signals s | Some v \<Rightarrow> (signals s)(c \<mapsto> v)),
       congestion_levels :=
         (case map_of kvs ''congestion'' of
            None \<Rightarrow> congestion_levels s | Some v \<Rightarrow> (congestion_levels s)(c \<mapsto> v))\<rparr>"
  by (simp add: process_traffic_data_def update_signal_dict update_congestion_dict
      split: option.splits)

lemma congestion_levels_process:
  "congestion_levels (process_traffic_data s d c) =
     (case congestion_field d of
        None \<Rightarrow> congestion_levels s
      | Some v \<Rightarrow> (congestion_levels s)(c \<mapsto> v))"
proof (cases d)
  case NoData
  then show ?thesis by (simp add: process_traffic_data_def)
next
  case BadJson
  then show ?thesis by (simp add: process_traffic_data_def)
next
  case (Json v)
  show ?thesis
  proof (cases "is_dict v")
    case True
    then obtain kvs where "v = JObj kvs" by (cases v) auto
    with Json show ?thesis by (simp add: process_dict split: option.splits)
  next
    case False
    then have "congestion_field (Json v) = None" by (cases v) auto
    with False Json show ?thesis by (simp add: process_not_dict)
  qed
qed

lemma process_ignores_token:
  "process_traffic_data s (Json (JObj ((''token'', tok) # kvs))) c =
     process_traffic_data s (Json (JObj kvs)) c"
  by (simp add: process_dict)

text \<open>
  C1, as the code has it. The server never compares the \<^verbatim>\<open>token\<close> entry of a telemetry
  message with the session token. For every message that parses to a JSON object,
  whatever its token: the \<^verbatim>\<open>signal_state\<close> and \<^verbatim>\<open>congestion\<close> entries, when present, are
  stored for the client, and the stored state does not depend on the token entry. Then
  the response built from the new state is sent and the pass of the loop ends without
  leaving it; only when that \<^verbatim>\<open>send\<close> raises is nothing sent and the loop left, the
  entries stored all the same.
\<close>

theorem telemetry_token_not_checked:
  "loop_body s client_id \<lparr>recv = Returned (Json (JObj kvs)), stamp = st, send_ok = ok\<rparr> =
     (process_traffic_data s (Json (JObj kvs)) client_id,
      (if ok
       then [SendResponse
               (generate_response (process_traffic_data s (Json (JObj kvs)) client_id) client_id st)]
       else []),
      (if ok then Continue else Break))
   \<and> process_traffic_data s (Json (JObj kvs)) client_id =
       s\<lparr>signals :=
           (case map_of kvs ''signal_state'' of
              None \<Rightarrow> signals s | Some v \<Rightarrow> (signals s)(client_id \<mapsto> v)),
         congestion_levels :=
           (case map_of kvs ''congestion'' of
              None \<Rightarrow> congestion_levels s | Some v \<Rightarrow> (congestion_levels s)(client_id \<mapsto> v))\<rparr>
   \<and> process_traffic_data s (Json (JObj ((''token'', tok) # kvs))) client_id =
       process_traffic_data s (Json (JObj kvs)) client_id"
  by (simp add: loop_body_def process_dict Let_def)

theorem telemetry_token_not_checked_witness:
  "loop_body
     \<lparr>security_manager =
        \<lparr>authorized_clients = {''sensor-1''}, session_tokens = [''sensor-1'' \<mapsto> ''T1''],
         failed_attempts = Map.empty\<rparr>,
      running = True, signals = Map.empty, congestion_levels = Map.empty\<rparr>
     ''sensor-1''
     \<lparr>recv = Returned (Json (JObj [(''token'', JStr ''stale''), (''congestion'', JNum (2/5))])),
       stamp = ''2026-01-01T00:00:00'', send_ok = True\<rparr>
   = (\<lparr>security_manager =
        \<lparr>authorized_clients = {''sensor-1''}, session_tokens = [''sensor-1'' \<mapsto> ''T1''],
         failed_attempts = Map.empty\<rparr>,
      running = True, signals = Map.empty,
      congestion_levels = [''sensor-1'' \<mapsto> JNum (2/5)]\<rparr>,
      [SendResponse
         \<lparr>resp_timestamp = ''2026-01-01T00:00:00'', resp_signal_state = JStr ''UNKNOWN'',
          resp_congestion_level = JNum (2/5), resp_token = ''T1''\<rparr>],
      Continue)"
  using telemetry_token_not_checked
    [of "\<lparr>security_manager =
        \<lparr>authorized_clients = {''sensor-1''}, session_tokens = [''sensor-1'' \<mapsto> ''T1''],
         failed_attempts = Map.empty\<rparr>,
      running = True, signals = Map.empty, congestion_levels = Map.empty\<rparr>"
      "''sensor-1''" "[(''token'', JStr ''stale''), (''congestion'', JNum (2/5))]"
      "''2026-01-01T00:00:00''" True]
  by (simp add: generate_response_def)

text \<open>
  A message with a token other than the session token is not rejected. The session token
  of \<^verbatim>\<open>sensor-1\<close> is \<^verbatim>\<open>T1\<close>, the message carries \<^verbatim>\<open>stale\<close>: its signal state and
  congestion are stored, the response is sent, and the connection stays in the loop.
\<close>

theorem stale_token_accepted:
  "telemetry_loop
     \<lparr>security_manager =
        \<lparr>authorized_clients = {''sensor-1''}, session_tokens = [''sensor-1'' \<mapsto> ''T1''],
         failed_attempts = Map.empty\<rparr>,
      running = True, signals = Map.empty, congestion_levels = Map.empty\<rparr>
     ''sensor-1''
     [\<lparr>recv = Returned (Json (JObj
         [(''timestamp'', JNum 1), (''client_id'', JStr ''sensor-1''), (''token'', JStr ''stale''),
          (''signal_state'', JStr ''GREEN''), (''congestion'', JNum (9/10))])),
       stamp = ''2026-01-01T00:00:00'', send_ok = True\<rparr>]
   = (\<lparr>security_manager =
        \<lparr>authorized_clients = {''sensor-1''}, session_tokens = [''sensor-1'' \<mapsto> ''T1''],
         failed_attempts = Map.empty\<rparr>,
      running = True, signals = [''sensor-1'' \<mapsto> JStr ''GREEN''],
      congestion_levels = [''sensor-1'' \<mapsto> JNum (9/10)]\<rparr>,
      [SendResponse
         \<lparr>resp_timestamp = ''2026-01-01T00:00:00'', resp_signal_state = JStr ''GREEN'',
          resp_congestion_level = JNum (9/10), resp_token = ''T1''\<rparr>],
      InLoop)"
  by (simp add: loop_body_def process_traffic_data_def update_signal_def update_congestion_def
      generate_response_def Let_def)

text \<open>
  C8, as the code has it. A malformed telemetry message (bytes that do not parse, or a
  parsed value that is not a dict) is swallowed by the handler inside
  \<^verbatim>\<open>process_traffic_data\<close>: the server state is unchanged. The response built from the
  unchanged state is then sent and the pass of the loop ends without leaving it, so the
  message does not close the connection; only when that \<^verbatim>\<open>send\<close> raises is nothing sent
  and the loop left.
\<close>

theorem malformed_telemetry_ignored:
  assumes "malformed d"
  shows "loop_body s client_id \<lparr>recv = Returned d, stamp = st, send_ok = ok\<rparr> =
           (s,
            (if ok then [SendResponse (generate_response s client_id st)] else []),
            (if ok then Continue else Break))
         \<and> process_traffic_data s d client_id = s"
  using assms by (cases d) (simp_all add: loop_body_def process_malformed Let_def)

theorem malformed_telemetry_ignored_witness:
  "malformed BadJson
   \<and> loop_body
     \<lparr>security_manager =
        \<lparr>authorized_clients = {''sensor-1''}, session_tokens = [''sensor-1'' \<mapsto> ''T1''],
         failed_attempts = Map.empty\<rparr>,
      running = True, signals = [''sensor-1'' \<mapsto> JStr ''GREEN''],
      congestion_levels = [''sensor-1'' \<mapsto> JNum (2/5)]\<rparr>
     ''sensor-1''
     \<lparr>recv = Returned BadJson, stamp = ''2026-01-01T00:00:00'', send_ok = True\<rparr>
   = (\<lparr>security_manager =
        \<lparr>authorized_clients = {''sensor-1''}, session_tokens = [''sensor-1'' \<mapsto> ''T1''],
         failed_attempts = Map.empty\<rparr>,
      running = True, signals = [''sensor-1'' \<mapsto> JStr ''GREEN''],
      congestion_levels = [''sensor-1'' \<mapsto> JNum (2/5)]\<rparr>,
      [SendResponse
         \<lparr>resp_timestamp = ''2026-01-01T00:00:00'', resp_signal_state = JStr ''GREEN'',
          resp_congestion_level = JNum (2/5), resp_token = ''T1''\<rparr>],
      Continue)"
  using malformed_telemetry_ignored
    [of BadJson
      "\<lparr>security_manager =
        \<lparr>authorized_clients = {''sensor-1''}, session_tokens = [''sensor-1'' \<mapsto> ''T1''],
         failed_attempts = Map.empty\<rparr>,
      running = True, signals = [''sensor-1'' \<mapsto> JStr ''GREEN''],
      congestion_levels = [''sensor-1'' \<mapsto> JNum (2/5)]\<rparr>"
      "''sensor-1''" "''2026-01-01T00:00:00''" True]
  by (simp add: generate_response_def)

text \<open>
  A JSON parse failure does not close the connection. \<^verbatim>\<open>sensor-1\<close> authenticates, then
  sends bytes that do not parse: the server answers with a response and the connection
  is still in the loop.
\<close>

theorem bad_json_keeps_connection:
  "handle_client symbolic_lib (SecureTrafficSystem_init\<lparr>running := True\<rparr>)
     \<lparr>auth_data = Returned ''sensor-1:secure_password'', clock_check = 0, clock_later = 0,
      auth_send_ok = True,
      telemetry = [\<lparr>recv = Returned BadJson, stamp = ''2026-01-01T00:00:00'', send_ok = True\<rparr>]\<rparr>
   = (\<lparr>security_manager =
         \<lparr>authorized_clients = {''sensor-1''},
          session_tokens = [''sensor-1'' \<mapsto> generate_token symbolic_lib ''sensor-1'' 0],
          failed_attempts = Map.empty\<rparr>,
       running = True, signals = Map.empty, congestion_levels = Map.empty\<rparr>,
      [SendToken (generate_token symbolic_lib ''sensor-1'' 0),
       SendResponse
         \<lparr>resp_timestamp = ''2026-01-01T00:00:00'', resp_signal_state = JStr ''UNKNOWN'',
          resp_congestion_level = JNum 0, resp_token = generate_token symbolic_lib ''sensor-1'' 0\<rparr>],
      InLoop)"
  by (simp add: handle_client_def authenticate_client_def loop_body_def process_traffic_data_def
      generate_response_def SecureTrafficSystem_init_def SecurityManager_init_def Let_def)

section \<open>The stored congestion level\<close>

lemma sensor1_authorized:
  "''sensor-1'' \<in> authorized_clients
     (fst (authenticate_client L SecurityManager_init ''sensor-1'' ''secure_password'' 0 0))"
  by (simp add: authenticate_client_def SecurityManager_init_def)

lemma sensor1_reachable:
  assumes "ok (Json (JObj [(''congestion'', v)]))"
  shows "reachable L ok
     (process_traffic_data
        (SecureTrafficSystem_init
           \<lparr>security_manager :=
              fst (authenticate_client L (security_manager SecureTrafficSystem_init)
                     ''sensor-1'' ''secure_password'' 0 0)\<rparr>)
        (Json (JObj [(''congestion'', v)])) ''sensor-1'')"
proof -
  have "reachable L ok
     (SecureTrafficSystem_init
        \<lparr>security_manager :=
           fst (authenticate_client L (security_manager SecureTrafficSystem_init)
                  ''sensor-1'' ''secure_password'' 0 0)\<rparr>)"
    by (rule reachable.auth) (rule reachable.init)
  then show ?thesis
    by (rule reachable.data)
       (simp_all add: assms sensor1_authorized SecureTrafficSystem_init_def)
qed

text \<open>
  C2, as the code has it. \<^verbatim>\<open>process_traffic_data\<close> stores the \<^verbatim>\<open>congestion\<close> entry of a
  message for the client exactly as it comes, without clamping or validation, and
  changes no level when the message has no such entry; the level read for the client
  right after is that entry. So the level of every client is a number of the interval
  from 0 to 1 in every state reached by telemetry whose \<^verbatim>\<open>congestion\<close> entries, where
  present, are such numbers; a client without entry reads as 0.
\<close>

theorem congestion_in_unit_if_supplied_so:
  "congestion_levels (process_traffic_data s0 d c) =
     (case congestion_field d of
        None \<Rightarrow> congestion_levels s0
      | Some v \<Rightarrow> (congestion_levels s0)(c \<mapsto> v))
   \<and> (congestion_field d = Some v \<longrightarrow>
        congestion_level_of (process_traffic_data s0 d c) c = v)
   \<and> (reachable L congestion_field_in_unit s \<longrightarrow>
        in_unit_interval (congestion_level_of s client_id))"
proof -
  have inv: "in_unit_interval (congestion_level_of s client_id)"
    if "reachable L congestion_field_in_unit s"
    using that
  proof (induction rule: reachable.induct)
    case init
    show ?case by (simp add: congestion_level_of_def SecureTrafficSystem_init_def)
  next
    case (start s)
    then show ?case by (simp add: congestion_level_of_def)
  next
    case (stop s)
    then show ?case by (simp add: congestion_level_of_def)
  next
    case (auth s c password t1 t2)
    then show ?case by (simp add: congestion_level_of_def)
  next
    case (data s c d)
    then show ?case
      by (auto simp: congestion_level_of_def congestion_levels_process
          congestion_field_in_unit_def split: option.splits)
  qed
  show ?thesis
    using inv by (simp add: congestion_levels_process congestion_level_of_def)
qed

theorem congestion_in_unit_if_supplied_so_witness:
  "reachable symbolic_lib congestion_field_in_unit
     (process_traffic_data
        (SecureTrafficSystem_init
           \<lparr>security_manager :=
              fst (authenticate_client symbolic_lib (security_manager SecureTrafficSystem_init)
                     ''sensor-1'' ''secure_password'' 0 0)\<rparr>)
        (Json (JObj [(''congestion'', JNum (2/5))])) ''sensor-1'')
   \<and> congestion_field (Json (JObj [(''congestion'', JNum (2/5))])) = Some (JNum (2/5))
   \<and> congestion_level_of
     (process_traffic_data
        (SecureTrafficSystem_init
           \<lparr>security_manager :=
              fst (authenticate_client symbolic_lib (security_manager SecureTrafficSystem_init)
                     ''sensor-1'' ''secure_password'' 0 0)\<rparr>)
        (Json (JObj [(''congestion'', JNum (2/5))])) ''sensor-1'') ''sensor-1'' = JNum (2/5)
   \<and> in_unit_interval (congestion_level_of
     (process_traffic_data
        (SecureTrafficSystem_init
           \<lparr>security_manager :=
              fst (authenticate_client symbolic_lib (security_manager SecureTrafficSystem_init)
                     ''sensor-1'' ''secure_password'' 0 0)\<rparr>)
        (Json (JObj [(''congestion'', JNum (2/5))])) ''sensor-1'') ''sensor-1'')"
proof -
  have r: "reachable symbolic_lib congestion_field_in_unit
     (process_traffic_data
        (SecureTrafficSystem_init
           \<lparr>security_manager :=
              fst (authenticate_client symbolic_lib (security_manager SecureTrafficSystem_init)
                     ''sensor-1'' ''secure_password'' 0 0)\<rparr>)
        (Json (JObj [(''congestion'', JNum (2/5))])) ''sensor-1'')"
    by (rule sensor1_reachable) (simp add: congestion_field_in_unit_def)
  have f: "congestion_field (Json (JObj [(''congestion'', JNum (2/5))])) = Some (JNum (2/5))"
    by simp
  from r f congestion_in_unit_if_supplied_so
    [of "SecureTrafficSystem_init
           \<lparr>security_manager :=
              fst (authenticate_client symbolic_lib (security_manager SecureTrafficSystem_init)
                     ''sensor-1'' ''secure_password'' 0 0)\<rparr>"
        "Json (JObj [(''congestion'', JNum (2/5))])" "''sensor-1''" "JNum (2/5)" symbolic_lib
        "process_traffic_data
        (SecureTrafficSystem_init
           \<lparr>security_manager :=
              fst (authenticate_client symbolic_lib (security_manager SecureTrafficSystem_init)
                     ''sensor-1'' ''secure_password'' 0 0)\<rparr>)
        (Json (JObj [(''congestion'', JNum (2/5))])) ''sensor-1''" "''sensor-1''"]
  show ?thesis by blast
qed

text \<open>
  The level is not clamped. After \<^verbatim>\<open>sensor-1\<close> authenticates and sends
  \<^verbatim>\<open>{"congestion": 5}\<close>, the state is reachable and the stored level of \<^verbatim>\<open>sensor-1\<close> is 5.
\<close>

theorem congestion_unclamped:
  "reachable symbolic_lib any_payload
     (process_traffic_data
        (SecureTrafficSystem_init
           \<lparr>security_manager :=
              fst (authenticate_client symbolic_lib (security_manager SecureTrafficSystem_init)
                     ''sensor-1'' ''secure_password'' 0 0)\<rparr>)
        (Json (JObj [(''congestion'', JNum 5)])) ''sensor-1'')
   \<and> congestion_level_of
     (process_traffic_data
        (SecureTrafficSystem_init
           \<lparr>security_manager :=
              fst (authenticate_client symbolic_lib (security_manager SecureTrafficSystem_init)
                     ''sensor-1'' ''secure_password'' 0 0)\<rparr>)
        (Json (JObj [(''congestion'', JNum 5)])) ''sensor-1'') ''sensor-1'' = JNum 5
   \<and> \<not> in_unit_interval (JNum 5)"
  by (simp add: sensor1_reachable any_payload_def congestion_level_of_def congestion_levels_process)

section \<open>The congestion score of detect_vehicles\<close>

lemma box_area_term_raises: "box_area_term d = Inl ValueError"
  by (simp add: box_area_term_def detection_keys_def)

lemma vehicle_area_sum_cases:
  "vehicle_area_sum ds = (if ds = [] then Inr 0 else Inl ValueError)"
  by (cases ds) (simp_all add: box_area_term_raises)

lemma detect_vehicles_congestion_zero: "snd (snd (detect_vehicles res shape)) = 0"
  by (auto simp: detect_vehicles_def detect_vehicles_try_def vehicle_area_sum_cases
      py_truediv_def Let_def split: outcome.splits prod.splits sum.splits if_splits)

text \<open>
  C5, on the code. A frame of 10 by 10 with two boxes of class 2 (car) of areas 20 and
  20, 40 percent of the frame: both cars land in \<^verbatim>\<open>emergency_vehicles\<close>, since 2 is among
  the values of \<^verbatim>\<open>emergency_classes\<close>; \<^verbatim>\<open>regular_vehicles\<close> is empty and the congestion
  is 0, not 0.4.
\<close>

theorem two_cars_congestion_zero:
  "detect_vehicles
     (Returned [[\<lparr>cls = 2, conf = 9/10, xyxy = (0, 0, 5, 4)\<rparr>,
                 \<lparr>cls = 2, conf = 4/5, xyxy = (5, 0, 10, 4)\<rparr>]]) [10, 10, 3]
   = ([],
      [\<lparr>det_class = ''car'', det_confidence = 9/10, det_box = (0, 0, 5, 4)\<rparr>,
       \<lparr>det_class = ''car'', det_confidence = 4/5, det_box = (5, 0, 10, 4)\<rparr>],
      0)"
  by (simp add: classify_def classify_box_def vehicle_classes_def emergency_classes_def py_int_def
      detect_vehicles_def detect_vehicles_try_def shape_at_def py_truediv_def)

text \<open>
  C6, on the code. A frame of 10 by 10 with one box of class 5 (bus) of area 400: the bus
  is a regular vehicle, the sum over \<^verbatim>\<open>regular_vehicles\<close> raises \<^verbatim>\<open>ValueError\<close> while
  unpacking the detection, and the handler returns empty lists and congestion 0, not 1.
\<close>

theorem oversized_bus_congestion_zero:
  "classify [[\<lparr>cls = 5, conf = 9/10, xyxy = (0, 0, 20, 20)\<rparr>]]
     = ([\<lparr>det_class = ''bus'', det_confidence = 9/10, det_box = (0, 0, 20, 20)\<rparr>], [])
   \<and> detect_vehicles_try (Returned [[\<lparr>cls = 5, conf = 9/10, xyxy = (0, 0, 20, 20)\<rparr>]]) [10, 10, 3]
     = Inl ValueError
   \<and> detect_vehicles (Returned [[\<lparr>cls = 5, conf = 9/10, xyxy = (0, 0, 20, 20)\<rparr>]]) [10, 10, 3]
     = ([], [], 0)"
  by (simp add: classify_def classify_box_def vehicle_classes_def emergency_classes_def py_int_def
      detect_vehicles_def detect_vehicles_try_def shape_at_def py_truediv_def
      box_area_term_def detection_keys_def)

text \<open>
  C7, as the code has it. When the frame area is 0, \<^verbatim>\<open>detect_vehicles\<close> returns congestion
  0 and no exception leaves it: the exception raised inside is caught by its handler,
  which returns empty lists of regular and of emergency vehicles.
\<close>

theorem zero_area_returns_zero:
  assumes "h * w = 0"
  shows "detect_vehicles res (h # w # rest) = ([], [], 0)"
  using assms
  by (auto simp: detect_vehicles_def detect_vehicles_try_def vehicle_area_sum_cases
      py_truediv_def shape_at_def Let_def split: outcome.splits prod.splits sum.splits if_splits)

theorem zero_area_returns_zero_witness:
  "detect_vehicles (Returned [[\<lparr>cls = 2, conf = 9/10, xyxy = (0, 0, 20, 20)\<rparr>]]) [0, 0, 3]
     = ([], [], 0)"
  using zero_area_returns_zero
    [of 0 0 "Returned [[\<lparr>cls = 2, conf = 9/10, xyxy = (0, 0, 20, 20)\<rparr>]]" "[3]"]
  by simp

text \<open>
  The emergency vehicles are not reported on a frame of area 0. The loops put the box of
  class 2 into \<^verbatim>\<open>emergency_vehicles\<close>, the division raises \<^verbatim>\<open>ZeroDivisionError\<close>, and the
  list returned for the emergency vehicles is empty.
\<close>

theorem zero_area_drops_emergency:
  "snd (classify [[\<lparr>cls = 2, conf = 9/10, xyxy = (0, 0, 20, 20)\<rparr>]])
     = [\<lparr>det_class = ''car'', det_confidence = 9/10, det_box = (0, 0, 20, 20)\<rparr>]
   \<and> detect_vehicles_try (Returned [[\<lparr>cls = 2, conf = 9/10, xyxy = (0, 0, 20, 20)\<rparr>]]) [0, 0]
     = Inl ZeroDivisionError
   \<and> fst (snd (detect_vehicles (Returned [[\<lparr>cls = 2, conf = 9/10, xyxy = (0, 0, 20, 20)\<rparr>]]) [0, 0])) = []"
  by (simp add: classify_def classify_box_def vehicle_classes_def emergency_classes_def py_int_def
      detect_vehicles_def detect_vehicles_try_def shape_at_def py_truediv_def)

end
